theory Spec2Isabelle
  imports Main "HOL-Library.AList" "HOL-Library.Word"
begin

section \<open>failerr: failure values as plain tagged objects\<close>

text \<open>
  The module \<^verbatim>\<open>src/failerr.ts\<close> is six top-level bindings:
  \<^verbatim>\<open>
  const toString = Object.prototype.toString;
  const isObject = (item: any): item is Object => {
    return toString.call(item) === '[object Object]';
  };
  const __fail__ = Symbol('fail');
  const empty = Object.freeze(Object.create(null));
  export const mkFail = <D = {}>(message: string, data: D = empty): Fail<D> => {
    return { [__fail__]: true, message, data };
  };
  export const isFail = (val: any): val is Fail<any> => {
    return isObject(val) && __fail__ in val;
  };
  \<close>
  Everything it does is done by built-in operations of the language
  (\<^verbatim>\<open>Object.prototype.toString\<close>, \<^verbatim>\<open>Symbol\<close>, \<^verbatim>\<open>Object.create\<close>,
  \<^verbatim>\<open>Object.freeze\<close>, an object literal, \<^verbatim>\<open>in\<close>, \<^verbatim>\<open>&&\<close>, \<^verbatim>\<open>===\<close>), so
  the embedding starts with the part of the ECMAScript object model these
  operations read and write: values, objects with own properties and a
  prototype link, and a heap that gives objects their identity.

  The model follows these operations as far as the language alone decides
  them: on ordinary and built-in objects, on data properties, and on revoked
  proxies (every internal method of which throws a \<^verbatim>\<open>TypeError\<close>). Where an
  operation hands over to code from outside the module (the getter or setter of
  an accessor property, the handler and target of a live proxy) the model
  stops with the outcome \<open>UserCode\<close>: what that code returns or throws is
  its own choice.
\<close>

subsection \<open>Values, objects, heap\<close>

type_synonym addr = nat

text \<open>
  A symbol is either the well-known \<^verbatim>\<open>Symbol.toStringTag\<close> or one created by a
  call of \<^verbatim>\<open>Symbol(description)\<close>; the number is its identity, the string its
  description.
\<close>

datatype symbol = ToStringTag | UserSymbol nat string

datatype key = KStr string | KSym symbol

text \<open>
  A number is an IEEE-754 double, kept as its 64 bits; nothing here computes
  with it. An object value is a reference into the heap, so that two values
  are the same object exactly when they are equal.
\<close>

datatype val =
    VUndefined
  | VNull
  | VBool bool
  | VNumber "64 word"
  | VString string
  | VSymbol symbol
  | VBigInt int
  | VRef addr

text \<open>
  A property is a data property (value, writable, enumerable, configurable) or
  an accessor property (getter, setter, enumerable, configurable); a missing
  getter or setter is \<^verbatim>\<open>undefined\<close>.
\<close>

datatype property =
    Data val bool bool bool
  | Accessor val val bool bool

text \<open>
  The kind of an object stands for the internal slots that
  \<^verbatim>\<open>Object.prototype.toString\<close> inspects.
\<close>

datatype kind =
    Ordinary
  | ArrayObj
  | ArgumentsObj
  | FunctionObj
  | ErrorObj
  | BooleanObj
  | NumberObj
  | StringObj
  | DateObj
  | RegExpObj
  | SymbolObj
  | BigIntObj
  | RevokedProxy
  | LiveProxy

text \<open>
  Own properties are kept in creation order; \<open>proto = None\<close> is a
  \<^verbatim>\<open>null\<close> prototype.
\<close>

record obj =
  kind :: kind
  proto :: "addr option"
  props :: "(key \<times> property) list"
  extensible :: bool

type_synonym heap = "obj list"

record state =
  heap :: heap
  symbols :: nat

text \<open>The intrinsic prototype objects of the realm the module is loaded in.\<close>

record realm =
  ObjectPrototype :: addr
  ArrayPrototype :: addr
  NumberPrototype :: addr
  StringPrototype :: addr
  BooleanPrototype :: addr
  SymbolPrototype :: addr
  BigIntPrototype :: addr

text \<open>
  \<open>TypeError\<close> is the exception the built-ins used here can throw.
  \<open>UserCode\<close> is not an exception: it marks the point where the outcome
  is decided by something the model does not hold, the getter or setter of an
  accessor property, or the handler and target of a live proxy; the model says
  nothing of what comes back. \<open>Stuck\<close> is not an exception either: it marks a
  heap no program can build (a reference to an object that was never
  allocated, or a prototype chain that loops), on which the model gives no
  answer.
\<close>

datatype error = TypeError | UserCode | Stuck

text \<open>
  What every internal method of a proxy does before anything else: a revoked
  proxy throws, a live proxy consults its handler.
\<close>

definition proxy_outcome :: "kind \<Rightarrow> error option" where
  "proxy_outcome c =
     (case c of RevokedProxy \<Rightarrow> Some TypeError | LiveProxy \<Rightarrow> Some UserCode | _ \<Rightarrow> None)"

definition heap_lookup :: "heap \<Rightarrow> addr \<Rightarrow> obj option" where
  "heap_lookup h a = (if a < length h then Some (h ! a) else None)"

definition alloc :: "obj \<Rightarrow> state \<Rightarrow> val \<times> state" where
  "alloc ob s = (VRef (length (heap s)), s\<lparr>heap := heap s @ [ob]\<rparr>)"

definition data_prop :: "val \<Rightarrow> property" where
  "data_prop v = Data v True True True"

subsection \<open>Property lookup along the prototype chain\<close>

text \<open>
  \<^verbatim>\<open>[[Get]]\<close> and \<^verbatim>\<open>[[HasProperty]]\<close> of an ordinary object look at the own
  properties and then walk the prototype chain. A chain of distinct objects
  of a heap \<open>h\<close> has at most \<open>length h\<close> members, which is the fuel
  \<open>find_prop\<close> gives the walk.
\<close>

fun lookup_chain :: "nat \<Rightarrow> heap \<Rightarrow> addr option \<Rightarrow> key \<Rightarrow> error + property option" where
  "lookup_chain n h None k = Inr None"
| "lookup_chain 0 h (Some a) k = Inl Stuck"
| "lookup_chain (Suc n) h (Some a) k =
     (case heap_lookup h a of
        None \<Rightarrow> Inl Stuck
      | Some ob \<Rightarrow>
          (case proxy_outcome (kind ob) of
             Some e \<Rightarrow> Inl e
           | None \<Rightarrow>
               (case map_of (props ob) k of
                  Some p \<Rightarrow> Inr (Some p)
                | None \<Rightarrow> lookup_chain n h (proto ob) k)))"

definition find_prop :: "heap \<Rightarrow> obj \<Rightarrow> key \<Rightarrow> error + property option" where
  "find_prop h ob k =
     (case proxy_outcome (kind ob) of
        Some e \<Rightarrow> Inl e
      | None \<Rightarrow>
          (case map_of (props ob) k of
             Some p \<Rightarrow> Inr (Some p)
           | None \<Rightarrow> lookup_chain (length h) h (proto ob) k))"

text \<open>
  \<^verbatim>\<open>[[Get]]\<close> returns the value of a data property and calls the getter of an
  accessor property, if it has one; \<^verbatim>\<open>[[HasProperty]]\<close> calls nothing.
\<close>

definition Get :: "heap \<Rightarrow> obj \<Rightarrow> key \<Rightarrow> error + val" where
  "Get h ob k =
     (case find_prop h ob k of
        Inl e \<Rightarrow> Inl e
      | Inr None \<Rightarrow> Inr VUndefined
      | Inr (Some (Data v w e c)) \<Rightarrow> Inr v
      | Inr (Some (Accessor g t e c)) \<Rightarrow> if g = VUndefined then Inr VUndefined else Inl UserCode)"

definition HasProperty :: "heap \<Rightarrow> obj \<Rightarrow> key \<Rightarrow> error + bool" where
  "HasProperty h ob k =
     (case find_prop h ob k of
        Inl e \<Rightarrow> Inl e
      | Inr None \<Rightarrow> Inr False
      | Inr (Some p) \<Rightarrow> Inr True)"

subsection \<open>The built-ins the module calls\<close>

text \<open>
  \<^verbatim>\<open>ToObject\<close>: \<^verbatim>\<open>undefined\<close> and \<^verbatim>\<open>null\<close> throw, a primitive is wrapped in a
  fresh object inheriting from the prototype of its type, an object is itself.
  The wrapper is dropped after the call that made it, so it is not put in the
  heap. Its own properties (the indices and length of a string) have string
  keys; the lookups below ask for symbol keys only and the own properties of a
  wrapper are left out.
\<close>

definition wrapper :: "kind \<Rightarrow> addr \<Rightarrow> obj" where
  "wrapper c p = \<lparr>kind = c, proto = Some p, props = [], extensible = True\<rparr>"

definition ToObject :: "realm \<Rightarrow> heap \<Rightarrow> val \<Rightarrow> error + obj" where
  "ToObject R h v =
     (case v of
        VUndefined \<Rightarrow> Inl TypeError
      | VNull \<Rightarrow> Inl TypeError
      | VBool b \<Rightarrow> Inr (wrapper BooleanObj (BooleanPrototype R))
      | VNumber n \<Rightarrow> Inr (wrapper NumberObj (NumberPrototype R))
      | VString s \<Rightarrow> Inr (wrapper StringObj (StringPrototype R))
      | VSymbol y \<Rightarrow> Inr (wrapper SymbolObj (SymbolPrototype R))
      | VBigInt i \<Rightarrow> Inr (wrapper BigIntObj (BigIntPrototype R))
      | VRef a \<Rightarrow> (case heap_lookup h a of None \<Rightarrow> Inl Stuck | Some ob \<Rightarrow> Inr ob))"

text \<open>
  \<^verbatim>\<open>IsArray\<close>: on a revoked proxy it throws; on a live proxy it is
  \<^verbatim>\<open>IsArray\<close> of the target, which the model does not hold.
\<close>

definition IsArray :: "obj \<Rightarrow> error + bool" where
  "IsArray ob =
     (case proxy_outcome (kind ob) of
        Some e \<Rightarrow> Inl e
      | None \<Rightarrow> Inr (kind ob = ArrayObj))"

definition builtinTag :: "kind \<Rightarrow> string" where
  "builtinTag c =
     (case c of
        ArrayObj \<Rightarrow> ''Array''
      | ArgumentsObj \<Rightarrow> ''Arguments''
      | FunctionObj \<Rightarrow> ''Function''
      | ErrorObj \<Rightarrow> ''Error''
      | BooleanObj \<Rightarrow> ''Boolean''
      | NumberObj \<Rightarrow> ''Number''
      | StringObj \<Rightarrow> ''String''
      | DateObj \<Rightarrow> ''Date''
      | RegExpObj \<Rightarrow> ''RegExp''
      | _ \<Rightarrow> ''Object'')"

text \<open>
  \<^verbatim>\<open>Object.prototype.toString.call(v)\<close>, step by step: the two absence
  values first, then \<^verbatim>\<open>ToObject\<close>, \<^verbatim>\<open>IsArray\<close>, the built-in tag of the
  object's slots, and the \<^verbatim>\<open>Symbol.toStringTag\<close> property, which replaces the
  built-in tag when it is a string.
\<close>

definition Object_prototype_toString :: "realm \<Rightarrow> heap \<Rightarrow> val \<Rightarrow> error + string" where
  "Object_prototype_toString R h v =
     (case v of
        VUndefined \<Rightarrow> Inr ''[object Undefined]''
      | VNull \<Rightarrow> Inr ''[object Null]''
      | _ \<Rightarrow>
         (case ToObject R h v of
            Inl e \<Rightarrow> Inl e
          | Inr ob \<Rightarrow>
             (case IsArray ob of
                Inl e \<Rightarrow> Inl e
              | Inr isArray \<Rightarrow>
                 (case Get h ob (KSym ToStringTag) of
                    Inl e \<Rightarrow> Inl e
                  | Inr tag \<Rightarrow>
                      Inr (''[object ''
                           @ (case tag of VString t \<Rightarrow> t | _ \<Rightarrow> builtinTag (kind ob))
                           @ '']'')))))"

text \<open>\<^verbatim>\<open>Symbol(description)\<close>: a symbol no earlier call has returned.\<close>

definition Symbol :: "string \<Rightarrow> state \<Rightarrow> symbol \<times> state" where
  "Symbol d s = (UserSymbol (symbols s) d, s\<lparr>symbols := Suc (symbols s)\<rparr>)"

text \<open>\<^verbatim>\<open>Object.create(p)\<close>: \<open>p\<close> must be an object or \<^verbatim>\<open>null\<close>.\<close>

definition Object_create :: "val \<Rightarrow> state \<Rightarrow> error + (val \<times> state)" where
  "Object_create p s =
     (case p of
        VNull \<Rightarrow> Inr (alloc \<lparr>kind = Ordinary, proto = None, props = [], extensible = True\<rparr> s)
      | VRef a \<Rightarrow> Inr (alloc \<lparr>kind = Ordinary, proto = Some a, props = [], extensible = True\<rparr> s)
      | _ \<Rightarrow> Inl TypeError)"

text \<open>
  \<^verbatim>\<open>Object.freeze(v)\<close>: a value that is not an object is returned as it is; an
  object is made non-extensible and each own property non-configurable, and
  non-writable if it is a data property, in place.
\<close>

definition freeze_prop :: "key \<times> property \<Rightarrow> key \<times> property" where
  "freeze_prop kp =
     (fst kp, (case snd kp of
                 Data v w e c \<Rightarrow> Data v False e False
               | Accessor g t e c \<Rightarrow> Accessor g t e False))"

definition frozen_prop :: "property \<Rightarrow> bool" where
  "frozen_prop p =
     (case p of Data v w e c \<Rightarrow> \<not> w \<and> \<not> c | Accessor g t e c \<Rightarrow> \<not> c)"

definition Object_freeze :: "val \<Rightarrow> state \<Rightarrow> error + (val \<times> state)" where
  "Object_freeze v s =
     (case v of
        VRef a \<Rightarrow>
          (case heap_lookup (heap s) a of
             None \<Rightarrow> Inl Stuck
           | Some ob \<Rightarrow>
               (case proxy_outcome (kind ob) of
                  Some e \<Rightarrow> Inl e
                | None \<Rightarrow>
                    Inr (v, s\<lparr>heap := (heap s)
                          [a := ob\<lparr>props := map freeze_prop (props ob), extensible := False\<rparr>]\<rparr>)))
      | _ \<Rightarrow> Inr (v, s))"

text \<open>\<^verbatim>\<open>Object.isFrozen(v)\<close>.\<close>

definition Object_isFrozen :: "heap \<Rightarrow> val \<Rightarrow> error + bool" where
  "Object_isFrozen h v =
     (case v of
        VRef a \<Rightarrow>
          (case heap_lookup h a of
             None \<Rightarrow> Inl Stuck
           | Some ob \<Rightarrow>
               (case proxy_outcome (kind ob) of
                  Some e \<Rightarrow> Inl e
                | None \<Rightarrow>
                    Inr (\<not> extensible ob \<and> list_all (\<lambda>kp. frozen_prop (snd kp)) (props ob))))
      | _ \<Rightarrow> Inr True)"

text \<open>
  The operator \<^verbatim>\<open>k in v\<close> throws a \<^verbatim>\<open>TypeError\<close> unless \<open>v\<close> is an object.
\<close>

definition js_in :: "heap \<Rightarrow> key \<Rightarrow> val \<Rightarrow> error + bool" where
  "js_in h k v =
     (case v of
        VRef a \<Rightarrow> (case heap_lookup h a of None \<Rightarrow> Inl Stuck | Some ob \<Rightarrow> HasProperty h ob k)
      | _ \<Rightarrow> Inl TypeError)"

subsection \<open>What a holder of a value can do with it\<close>

text \<open>The property read \<^verbatim>\<open>o.k\<close>, for the object \<open>o\<close> at address \<open>a\<close>.\<close>

definition read_prop :: "heap \<Rightarrow> addr \<Rightarrow> key \<Rightarrow> error + val" where
  "read_prop h a k =
     (case heap_lookup h a of None \<Rightarrow> Inl Stuck | Some ob \<Rightarrow> Get h ob k)"

text \<open>
  The assignment \<^verbatim>\<open>v.k = x\<close> in strict mode (the mode of a module). The
  property is looked up on the object and its chain. An accessor property
  found there has its setter called, and the assignment throws if it has none.
  A data property found there that is not writable makes it throw. Otherwise a
  writable own property is overwritten, and a property the object does not have
  is added if the object is extensible; if it is not, the assignment throws.
  On a value that is not an object it throws.
\<close>

definition add_property :: "heap \<Rightarrow> addr \<Rightarrow> obj \<Rightarrow> key \<Rightarrow> val \<Rightarrow> error + heap" where
  "add_property h a ob k x =
     (if extensible ob
      then Inr (h[a := ob\<lparr>props := props ob @ [(k, data_prop x)]\<rparr>])
      else Inl TypeError)"

definition assign :: "heap \<Rightarrow> val \<Rightarrow> key \<Rightarrow> val \<Rightarrow> error + heap" where
  "assign h v k x =
     (case v of
        VRef a \<Rightarrow>
          (case heap_lookup h a of
             None \<Rightarrow> Inl Stuck
           | Some ob \<Rightarrow>
              (case find_prop h ob k of
                 Inl e \<Rightarrow> Inl e
               | Inr (Some (Accessor g t e c)) \<Rightarrow>
                   if t = VUndefined then Inl TypeError else Inl UserCode
               | Inr (Some (Data v w e c)) \<Rightarrow>
                   if \<not> w then Inl TypeError
                   else (case map_of (props ob) k of
                           Some p \<Rightarrow>
                             Inr (h[a := ob\<lparr>props := AList.update k (Data x w e c) (props ob)\<rparr>])
                         | None \<Rightarrow> add_property h a ob k x)
               | Inr None \<Rightarrow> add_property h a ob k x))
      | _ \<Rightarrow> Inl TypeError)"

subsection \<open>The module\<close>

text \<open>
  Loading the module evaluates its top-level bindings once. What the exported
  functions close over is the symbol \<^verbatim>\<open>__fail__\<close> and the object
  \<^verbatim>\<open>empty\<close>; \<^verbatim>\<open>toString\<close> is the built-in above.
\<close>

record module =
  fail_sym :: symbol
  empty_obj :: val

definition instantiate :: "state \<Rightarrow> error + (module \<times> state)" where
  "instantiate s0 =
     (case Symbol ''fail'' s0 of
        (f, s1) \<Rightarrow>
          (case Object_create VNull s1 of
             Inl e \<Rightarrow> Inl e
           | Inr (c, s2) \<Rightarrow>
               (case Object_freeze c s2 of
                  Inl e \<Rightarrow> Inl e
                | Inr (z, s3) \<Rightarrow> Inr (\<lparr>fail_sym = f, empty_obj = z\<rparr>, s3))))"

definition isObject :: "realm \<Rightarrow> heap \<Rightarrow> val \<Rightarrow> error + bool" where
  "isObject R h item =
     (case Object_prototype_toString R h item of
        Inl e \<Rightarrow> Inl e
      | Inr s \<Rightarrow> Inr (s = ''[object Object]''))"

text \<open>
  A parameter with a default initialiser takes the default when the call
  leaves the argument out (\<open>None\<close>) or passes \<^verbatim>\<open>undefined\<close>.
\<close>

definition default_param :: "val option \<Rightarrow> val \<Rightarrow> val" where
  "default_param arg dflt =
     (case arg of
        None \<Rightarrow> dflt
      | Some VUndefined \<Rightarrow> dflt
      | Some v \<Rightarrow> v)"

text \<open>
  \<^verbatim>\<open>mkFail(message, data = empty)\<close>. The object literal allocates one
  ordinary, extensible object inheriting from \<^verbatim>\<open>Object.prototype\<close>, with three
  writable, enumerable, configurable data properties.
\<close>

definition mkFail :: "realm \<Rightarrow> module \<Rightarrow> string \<Rightarrow> val option \<Rightarrow> state \<Rightarrow> val \<times> state" where
  "mkFail R M message arg s =
     (let data = default_param arg (empty_obj M)
      in alloc \<lparr>kind = Ordinary, proto = Some (ObjectPrototype R),
                props = [(KSym (fail_sym M), data_prop (VBool True)),
                         (KStr ''message'', data_prop (VString message)),
                         (KStr ''data'', data_prop data)],
                extensible = True\<rparr> s)"

text \<open>
  \<^verbatim>\<open>isObject(val) && __fail__ in val\<close>: the right operand is evaluated only
  when the left one is \<^verbatim>\<open>true\<close>.
\<close>

definition isFail :: "realm \<Rightarrow> module \<Rightarrow> heap \<Rightarrow> val \<Rightarrow> error + bool" where
  "isFail R M h val =
     (case isObject R h val of
        Inl e \<Rightarrow> Inl e
      | Inr False \<Rightarrow> Inr False
      | Inr True \<Rightarrow> js_in h (KSym (fail_sym M)) val)"

text \<open>
  A run of calls of the two exported functions. \<open>isFail\<close> returns a boolean
  or throws and has no heap to return; \<open>mkFail\<close> returns the heap it
  extended.
\<close>

datatype call = MkFail string "val option" | IsFail val

fun run :: "realm \<Rightarrow> module \<Rightarrow> call list \<Rightarrow> state \<Rightarrow> state" where
  "run R M [] s = s"
| "run R M (MkFail m d # cs) s = run R M cs (snd (mkFail R M m d s))"
| "run R M (IsFail v # cs) s = run R M cs s"

text \<open>
  What a program does to the heap around the module: it calls the module, it
  allocates objects of its own, and it assigns to properties. An assignment
  that throws changes nothing; one that hands over to a setter changes nothing
  itself, and what the setter does is further steps.
\<close>

datatype step = Calls call | Allocates obj | Assigns val key val

definition assign_step :: "val \<Rightarrow> key \<Rightarrow> val \<Rightarrow> state \<Rightarrow> state" where
  "assign_step v k x s =
     (case assign (heap s) v k x of Inl e \<Rightarrow> s | Inr h' \<Rightarrow> s\<lparr>heap := h'\<rparr>)"

fun steps :: "realm \<Rightarrow> module \<Rightarrow> step list \<Rightarrow> state \<Rightarrow> state" where
  "steps R M [] s = s"
| "steps R M (Calls c # ps) s = steps R M ps (run R M [c] s)"
| "steps R M (Allocates ob # ps) s = steps R M ps (snd (alloc ob s))"
| "steps R M (Assigns v k x # ps) s = steps R M ps (assign_step v k x s)"

subsection \<open>Predicates the theorems are stated with\<close>


definition own_property :: "obj \<Rightarrow> key \<Rightarrow> property option" where
  "own_property ob k = map_of (props ob) k"

definition is_proxy :: "kind \<Rightarrow> bool" where
  "is_proxy c = (c = RevokedProxy \<or> c = LiveProxy)"

text \<open>
  A property that is there or not, and that is not an accessor with a getter:
  reading it runs no code.
\<close>

definition no_getter :: "property option \<Rightarrow> bool" where
  "no_getter q = (case q of Some (Accessor g t e c) \<Rightarrow> g = VUndefined | _ \<Rightarrow> True)"

text \<open>
  A plain object: what an object literal or \<^verbatim>\<open>Object.create(null)\<close> makes,
  an ordinary object directly under \<^verbatim>\<open>Object.prototype\<close> or \<^verbatim>\<open>null\<close>,
  whatever the keys and values of its own properties; its own
  \<^verbatim>\<open>Symbol.toStringTag\<close>, if it has one, is not computed by a getter.
\<close>

definition plain_object :: "realm \<Rightarrow> obj \<Rightarrow> bool" where
  "plain_object R ob =
     (kind ob = Ordinary \<and> (proto ob = None \<or> proto ob = Some (ObjectPrototype R))
      \<and> no_getter (own_property ob (KSym ToStringTag)))"

text \<open>
  The own \<^verbatim>\<open>Symbol.toStringTag\<close> of an object does not change the tag
  \<^verbatim>\<open>Object\<close>: there is none, or it has a value that is not a string, or
  that is that string, or it is an accessor with no getter.
\<close>

definition tag_is_Object :: "obj \<Rightarrow> bool" where
  "tag_is_Object ob =
     (case own_property ob (KSym ToStringTag) of
        None \<Rightarrow> True
      | Some (Data v w e c) \<Rightarrow> (case v of VString t \<Rightarrow> t = ''Object'' | _ \<Rightarrow> True)
      | Some (Accessor g t e c) \<Rightarrow> g = VUndefined)"

text \<open>
  The intrinsic prototypes as the language defines them, as far as the module
  depends on them: \<^verbatim>\<open>Object.prototype\<close> ends every chain and has no
  symbol-keyed property; the prototypes of arrays, numbers, strings and
  booleans inherit from it and have no \<^verbatim>\<open>Symbol.toStringTag\<close>; those of
  symbols and big integers carry the tags \<^verbatim>\<open>Symbol\<close> and \<^verbatim>\<open>BigInt\<close>.
\<close>

definition no_symbol_keys :: "obj \<Rightarrow> bool" where
  "no_symbol_keys ob =
     list_all (\<lambda>kp. case fst kp of KStr s \<Rightarrow> True | KSym y \<Rightarrow> False) (props ob)"

definition untagged :: "realm \<Rightarrow> heap \<Rightarrow> addr \<Rightarrow> bool" where
  "untagged R h p =
     (case heap_lookup h p of
        None \<Rightarrow> False
      | Some ob \<Rightarrow> \<not> is_proxy (kind ob) \<and> proto ob = Some (ObjectPrototype R)
                   \<and> own_property ob (KSym ToStringTag) = None)"

definition tagged :: "heap \<Rightarrow> string \<Rightarrow> addr \<Rightarrow> bool" where
  "tagged h t p =
     (case heap_lookup h p of
        None \<Rightarrow> False
      | Some ob \<Rightarrow> \<not> is_proxy (kind ob)
                   \<and> (case own_property ob (KSym ToStringTag) of
                         None \<Rightarrow> False
                       | Some (Data v w e c) \<Rightarrow> v = VString t
                       | Some (Accessor g u e c) \<Rightarrow> False))"

definition intact :: "realm \<Rightarrow> heap \<Rightarrow> bool" where
  "intact R h =
     ((case heap_lookup h (ObjectPrototype R) of
         None \<Rightarrow> False
       | Some ob \<Rightarrow> \<not> is_proxy (kind ob) \<and> proto ob = None \<and> no_symbol_keys ob)
      \<and> list_all (untagged R h)
           [ArrayPrototype R, NumberPrototype R, StringPrototype R, BooleanPrototype R]
      \<and> tagged h ''Symbol'' (SymbolPrototype R)
      \<and> tagged h ''BigInt'' (BigIntPrototype R))"

text \<open>
  The module \<open>M\<close> has been loaded before state \<open>s\<close>: its symbol is one
  that \<^verbatim>\<open>Symbol\<close> has handed out, and its \<^verbatim>\<open>empty\<close> is in the heap as
  \<open>instantiate\<close> left it.
\<close>

definition frozen_empty :: obj where
  "frozen_empty = \<lparr>kind = Ordinary, proto = None, props = [], extensible = False\<rparr>"

definition loaded :: "module \<Rightarrow> state \<Rightarrow> bool" where
  "loaded M s =
     ((case fail_sym M of UserSymbol n d \<Rightarrow> n < symbols s | ToStringTag \<Rightarrow> False)
      \<and> (case empty_obj M of
            VRef a \<Rightarrow> heap_lookup (heap s) a = Some frozen_empty
          | _ \<Rightarrow> False))"




text \<open>
  The object that the literal of \<open>mkFail\<close> makes for a message \<open>m\<close> and a
  data value \<open>x\<close>, and the test that an object is one of these.
\<close>

definition fail_record :: "realm \<Rightarrow> module \<Rightarrow> string \<Rightarrow> val \<Rightarrow> obj" where
  "fail_record R M m x =
     \<lparr>kind = Ordinary, proto = Some (ObjectPrototype R),
      props = [(KSym (fail_sym M), data_prop (VBool True)),
               (KStr ''message'', data_prop (VString m)),
               (KStr ''data'', data_prop x)],
      extensible = True\<rparr>"










text \<open>
  The assignment \<^verbatim>\<open>o.k = x\<close> followed by the read \<^verbatim>\<open>o.k\<close>, for the
  object \<open>o\<close> at address \<open>a\<close>.
\<close>

definition assign_then_read :: "heap \<Rightarrow> addr \<Rightarrow> key \<Rightarrow> val \<Rightarrow> error + val" where
  "assign_then_read h a k x =
     (case assign h (VRef a) k x of Inl e \<Rightarrow> Inl e | Inr h' \<Rightarrow> read_prop h' a k)"

subsection \<open>A concrete realm and concrete heaps\<close>

text \<open>
  A realm with its seven intrinsic prototypes at addresses 0 to 6, the module
  loaded once (\<open>module0\<close>, leaving \<open>state1\<close>) and a second time
  (\<open>module1\<close>, leaving \<open>state2\<close>).
\<close>

definition realm0 :: realm where
  "realm0 = \<lparr>ObjectPrototype = 0, ArrayPrototype = 1, NumberPrototype = 2,
             StringPrototype = 3, BooleanPrototype = 4, SymbolPrototype = 5,
             BigIntPrototype = 6\<rparr>"

definition tag_prop :: "string \<Rightarrow> key \<times> property" where
  "tag_prop t = (KSym ToStringTag, Data (VString t) False False True)"

definition state0 :: state where
  "state0 =
     \<lparr>heap =
        [\<lparr>kind = Ordinary, proto = None, props = [], extensible = True\<rparr>,
         \<lparr>kind = ArrayObj, proto = Some 0, props = [], extensible = True\<rparr>,
         \<lparr>kind = NumberObj, proto = Some 0, props = [], extensible = True\<rparr>,
         \<lparr>kind = StringObj, proto = Some 0, props = [], extensible = True\<rparr>,
         \<lparr>kind = BooleanObj, proto = Some 0, props = [], extensible = True\<rparr>,
         \<lparr>kind = Ordinary, proto = Some 0, props = [tag_prop ''Symbol''], extensible = True\<rparr>,
         \<lparr>kind = Ordinary, proto = Some 0, props = [tag_prop ''BigInt''], extensible = True\<rparr>],
      symbols = 0\<rparr>"

definition module0 :: module where
  "module0 = \<lparr>fail_sym = UserSymbol 0 ''fail'', empty_obj = VRef 7\<rparr>"

definition state1 :: state where
  "state1 = \<lparr>heap = heap state0 @ [frozen_empty], symbols = 1\<rparr>"

definition module1 :: module where
  "module1 = \<lparr>fail_sym = UserSymbol 1 ''fail'', empty_obj = VRef 8\<rparr>"

definition state2 :: state where
  "state2 = \<lparr>heap = heap state1 @ [frozen_empty], symbols = 2\<rparr>"

text \<open>
  \<open>with_object ob\<close> is \<open>state1\<close> with one more object, at address 8,
  \<open>with_objects obs\<close> with several, from address 8 on.
  \<open>literal ps\<close> is the object the literal \<^verbatim>\<open>{k1: v1, ...}\<close> makes,
  \<open>array_literal\<close> the one \<^verbatim>\<open>[v0, v1, v2]\<close> makes.
\<close>

definition with_object :: "obj \<Rightarrow> state" where
  "with_object ob = snd (alloc ob state1)"

definition with_objects :: "obj list \<Rightarrow> state" where
  "with_objects obs = state1\<lparr>heap := heap state1 @ obs\<rparr>"

definition literal :: "(key \<times> val) list \<Rightarrow> obj" where
  "literal ps =
     \<lparr>kind = Ordinary, proto = Some (ObjectPrototype realm0),
      props = map (\<lambda>kv. (fst kv, data_prop (snd kv))) ps, extensible = True\<rparr>"



text \<open>The number 42 as a double.\<close>

definition forty_two :: val where
  "forty_two = VNumber 0x4045000000000000"

text \<open>
  \<open>state3\<close>: after \<^verbatim>\<open>mkFail('not found')\<close>, \<^verbatim>\<open>mkFail('again')\<close> and
  \<^verbatim>\<open>isFail(null)\<close> of \<open>module0\<close> in \<open>state1\<close>. Loading the module in
  \<open>state3\<close> gives \<open>module3\<close> and leaves \<open>state4\<close>.
\<close>

definition state3 :: state where
  "state3 = run realm0 module0 [MkFail ''again'' None, IsFail VNull]
              (snd (mkFail realm0 module0 ''not found'' None state1))"

definition module3 :: module where
  "module3 = \<lparr>fail_sym = UserSymbol 1 ''fail'', empty_obj = VRef 10\<rparr>"

definition state4 :: state where
  "state4 = state3\<lparr>symbols := 2, heap := heap state3 @ [frozen_empty]\<rparr>"




text \<open>
  A program around the module, loaded in \<open>state0\<close>: it makes the object
  \<^verbatim>\<open>{code: 42}\<close> (address 8), calls
  \<^verbatim>\<open>mkFail('not found', o)\<close> on it (the failure value is at address 9),
  then assigns \<^verbatim>\<open>o.code = 1\<close> and calls \<open>isFail\<close> on the failure
  value.
\<close>

definition first_steps :: "step list" where
  "first_steps = [Allocates (literal [(KStr ''code'', forty_two)])]"


section \<open>Lemmas on the heap and the prototype chain\<close>

lemma tag_eq_Object: "(''[object '' @ t @ '']'' = ''[object Object]'') = (t = ''Object'')"
proof -
  have "''Object]'' = ''Object'' @ '']''" by simp
  then have "(t @ '']'' = ''Object]'') = (t = ''Object'')"
    by (simp only: append_same_eq)
  then show ?thesis by simp
qed

lemma proxy_outcome_None: "\<not> is_proxy c \<Longrightarrow> proxy_outcome c = None"
  by (cases c) (simp_all add: proxy_outcome_def is_proxy_def)

lemma proxy_outcome_Some: "proxy_outcome c = Some e \<Longrightarrow> is_proxy c"
  by (cases c) (simp_all add: proxy_outcome_def is_proxy_def)

lemma heap_lookup_Some_append:
  "heap_lookup h a = Some ob \<Longrightarrow> heap_lookup (h @ ys) a = Some ob"
  by (auto simp: heap_lookup_def nth_append split: if_splits)

lemma untagged_append: "untagged R h p \<Longrightarrow> untagged R (h @ ys) p"
  by (auto simp: untagged_def heap_lookup_Some_append split: option.splits)

lemma tagged_append: "tagged h t p \<Longrightarrow> tagged (h @ ys) t p"
  by (auto simp: tagged_def heap_lookup_Some_append split: option.splits)

lemma intact_append: "intact R h \<Longrightarrow> intact R (h @ ys)"
  by (auto simp: intact_def untagged_append tagged_append heap_lookup_Some_append split: option.splits)

lemma no_symbol_keys_map_of: "no_symbol_keys ob \<Longrightarrow> map_of (props ob) (KSym y) = None"
proof -
  assume a: "no_symbol_keys ob"
  have "KSym y \<notin> fst ` set (props ob)"
  proof
    assume "KSym y \<in> fst ` set (props ob)"
    then obtain kp where "kp \<in> set (props ob)" "fst kp = KSym y" by auto
    with a show False by (auto simp: no_symbol_keys_def list_all_iff)
  qed
  then show ?thesis by (simp add: map_of_eq_None_iff)
qed

lemma lookup_chain_ObjectPrototype:
  "intact R h \<Longrightarrow> lookup_chain (Suc n) h (Some (ObjectPrototype R)) (KSym y) = Inr None"
  by (auto simp: intact_def no_symbol_keys_map_of proxy_outcome_None split: option.splits)

lemma intact_length: "intact R h \<Longrightarrow> \<exists>n. length h = Suc (Suc n)"
proof -
  assume a: "intact R h"
  then have 1: "ObjectPrototype R < length h" and 2: "NumberPrototype R < length h"
    and 3: "ObjectPrototype R \<noteq> NumberPrototype R"
    by (auto simp: intact_def untagged_def heap_lookup_def split: option.splits if_splits)
  then have "2 \<le> length h" by arith
  then show ?thesis by (metis Suc_le_D numeral_2_eq_2 Suc_le_mono)
qed



text \<open>
  An object directly under \<^verbatim>\<open>Object.prototype\<close> or \<^verbatim>\<open>null\<close>: a lookup by a
  symbol sees its own properties only.
\<close>

lemma find_prop_plain:
  assumes "intact R h" and "\<not> is_proxy (kind ob)"
    and "proto ob = None \<or> proto ob = Some (ObjectPrototype R)"
  shows "find_prop h ob (KSym y) = Inr (map_of (props ob) (KSym y))"
proof (cases "map_of (props ob) (KSym y)")
  case (Some q)
  with assms(2) show ?thesis by (simp add: find_prop_def proxy_outcome_None)
next
  case None
  from intact_length [OF assms(1)] obtain n where n: "length h = Suc (Suc n)" ..
  from assms(3) have "lookup_chain (length h) h (proto ob) (KSym y) = Inr None"
  proof
    assume "proto ob = None"
    then show ?thesis by simp
  next
    assume "proto ob = Some (ObjectPrototype R)"
    then show ?thesis
      unfolding n by (simp only: lookup_chain_ObjectPrototype [OF assms(1)])
  qed
  with None assms(2) show ?thesis by (simp add: find_prop_def proxy_outcome_None)
qed

lemma tag_is_Object_no_getter: "tag_is_Object ob \<Longrightarrow> no_getter (own_property ob (KSym ToStringTag))"
  by (auto simp: tag_is_Object_def no_getter_def split: option.splits property.splits)

lemma isObject_plain:
  assumes "intact R h" and "heap_lookup h a = Some ob" and "kind ob = Ordinary"
    and "proto ob = None \<or> proto ob = Some (ObjectPrototype R)"
    and "no_getter (own_property ob (KSym ToStringTag))"
  shows "isObject R h (VRef a) = Inr (tag_is_Object ob)"
proof -
  have k: "\<not> is_proxy (kind ob)" using assms(3) by (simp add: is_proxy_def)
  have f: "find_prop h ob (KSym ToStringTag) = Inr (own_property ob (KSym ToStringTag))"
    by (simp add: find_prop_plain [OF assms(1) k assms(4)] own_property_def)
  show ?thesis
    using assms(2,3,5)
    by (simp add: isObject_def Object_prototype_toString_def ToObject_def IsArray_def Get_def f
        builtinTag_def tag_is_Object_def no_getter_def proxy_outcome_def tag_eq_Object
        split: option.splits val.splits property.splits)
qed

lemma js_in_plain:
  assumes "intact R h" and "heap_lookup h a = Some ob" and "\<not> is_proxy (kind ob)"
    and "proto ob = None \<or> proto ob = Some (ObjectPrototype R)"
  shows "js_in h (KSym y) (VRef a) = Inr (map_of (props ob) (KSym y) \<noteq> None)"
  using assms(2)
  by (simp add: js_in_def HasProperty_def find_prop_plain [OF assms(1,3,4)] split: option.splits)

lemma isFail_plain:
  assumes "intact R h" and "heap_lookup h a = Some ob" and "kind ob = Ordinary"
    and "proto ob = None \<or> proto ob = Some (ObjectPrototype R)"
    and "no_getter (own_property ob (KSym ToStringTag))"
  shows "isFail R M h (VRef a)
           = Inr (tag_is_Object ob \<and> map_of (props ob) (KSym (fail_sym M)) \<noteq> None)"
proof -
  have k: "\<not> is_proxy (kind ob)" using assms(3) by (simp add: is_proxy_def)
  show ?thesis
    by (cases "tag_is_Object ob")
       (simp_all add: isFail_def isObject_plain [OF assms] js_in_plain [OF assms(1,2) k assms(4)])
qed

lemma plain_object_no_getter:
  "plain_object R ob \<Longrightarrow> no_getter (own_property ob (KSym ToStringTag))"
  by (simp add: plain_object_def)





section \<open>Lemmas on the module\<close>

lemma instantiate_eq:
  "instantiate s =
     Inr (\<lparr>fail_sym = UserSymbol (symbols s) ''fail'', empty_obj = VRef (length (heap s))\<rparr>,
          s\<lparr>symbols := Suc (symbols s), heap := heap s @ [frozen_empty]\<rparr>)"
  by (simp add: instantiate_def Symbol_def Object_create_def alloc_def Object_freeze_def
      heap_lookup_def frozen_empty_def proxy_outcome_def)

lemma mkFail_eq:
  "mkFail R M m d s =
     (VRef (length (heap s)),
      s\<lparr>heap := heap s @ [fail_record R M m (default_param d (empty_obj M))]\<rparr>)"
  by (simp add: mkFail_def alloc_def fail_record_def)

lemma mkFail_fst: "fst (mkFail R M m d s) = VRef (length (heap s))"
  by (simp add: mkFail_eq)

lemma run_heap: "\<exists>ys. heap (run R M cs s) = heap s @ ys"
proof (induction cs arbitrary: s)
  case Nil
  show ?case by simp
next
  case (Cons c cs)
  show ?case
  proof (cases c)
    case (MkFail m d)
    from Cons.IH [of "snd (mkFail R M m d s)"] obtain ys where
      "heap (run R M cs (snd (mkFail R M m d s))) = heap (snd (mkFail R M m d s)) @ ys" ..
    with MkFail show ?thesis by (simp add: mkFail_eq)
  next
    case (IsFail v)
    with Cons.IH [of s] show ?thesis by simp
  qed
qed

lemma run_symbols: "symbols (run R M cs s) = symbols s"
proof (induction cs arbitrary: s)
  case Nil
  show ?case by simp
next
  case (Cons c cs)
  then show ?case by (cases c) (simp_all add: mkFail_eq)
qed

lemma loaded_append:
  "loaded M s \<Longrightarrow> heap s' = heap s @ ys \<Longrightarrow> symbols s \<le> symbols s' \<Longrightarrow> loaded M s'"
  by (auto simp: loaded_def heap_lookup_Some_append split: symbol.splits val.splits)

lemma loaded_instantiate: "instantiate s = Inr (M, s') \<Longrightarrow> loaded M s'"
  by (auto simp: instantiate_eq loaded_def heap_lookup_def)

lemma loaded_mkFail:
  assumes "loaded M s"
  shows "loaded M (snd (mkFail R M' m d s))"
  by (rule loaded_append [OF assms]) (simp_all add: mkFail_eq)

lemma loaded_run: "loaded M s \<Longrightarrow> loaded M (run R M' cs s)"
  using run_heap [of R M' cs s] run_symbols [of R M' cs s]
  by (auto intro: loaded_append)














lemma lookup_chain_more_fuel:
  "lookup_chain n h p k = Inr r \<Longrightarrow> lookup_chain (n + m) h p k = Inr r"
proof (induction n h p k rule: lookup_chain.induct)
  case (1 n h k)
  then show ?case by simp
next
  case (2 h a k)
  then show ?case by simp
next
  case (3 n h a k)
  then show ?case by (auto split: option.splits if_splits)
qed


text \<open>The failure record wherever it is in a heap.\<close>

lemma isFail_fail_record:
  assumes "intact R h" and "heap_lookup h a = Some (fail_record R M m x)"
    and "fail_sym M \<noteq> ToStringTag"
  shows "isFail R M h (VRef a) = Inr True"
proof -
  have n: "no_getter (own_property (fail_record R M m x) (KSym ToStringTag))"
    using assms(3) by (simp add: no_getter_def own_property_def fail_record_def)
  have "isFail R M h (VRef a)
          = Inr (tag_is_Object (fail_record R M m x)
                 \<and> map_of (props (fail_record R M m x)) (KSym (fail_sym M)) \<noteq> None)"
    by (rule isFail_plain [OF assms(1,2) _ _ n]) (simp_all add: fail_record_def)
  then show ?thesis
    using assms(3) by (simp add: tag_is_Object_def own_property_def fail_record_def)
qed

lemma isFail_fail_record_other:
  assumes "intact R h" and "heap_lookup h a = Some (fail_record R M m x)"
    and "fail_sym M' \<noteq> fail_sym M"
  shows "isFail R M' h (VRef a) = Inr False"
proof (cases "fail_sym M = ToStringTag")
  case False
  then have n: "no_getter (own_property (fail_record R M m x) (KSym ToStringTag))"
    by (simp add: no_getter_def own_property_def fail_record_def)
  have "isFail R M' h (VRef a)
          = Inr (tag_is_Object (fail_record R M m x)
                 \<and> map_of (props (fail_record R M m x)) (KSym (fail_sym M')) \<noteq> None)"
    by (rule isFail_plain [OF assms(1,2) _ _ n]) (simp_all add: fail_record_def)
  then show ?thesis
    using assms(3) by (simp add: fail_record_def)
next
  case True
  then have n: "no_getter (own_property (fail_record R M m x) (KSym ToStringTag))"
    by (simp add: no_getter_def own_property_def fail_record_def data_prop_def)
  have "isFail R M' h (VRef a)
          = Inr (tag_is_Object (fail_record R M m x)
                 \<and> map_of (props (fail_record R M m x)) (KSym (fail_sym M')) \<noteq> None)"
    by (rule isFail_plain [OF assms(1,2) _ _ n]) (simp_all add: fail_record_def)
  then show ?thesis
    using assms(3) by (simp add: fail_record_def)
qed

lemma read_fail_record:
  assumes "heap_lookup h a = Some (fail_record R M m x)"
  shows "read_prop h a (KStr ''message'') = Inr (VString m)
       \<and> read_prop h a (KStr ''data'') = Inr x"
  using assms
  by (simp add: read_prop_def Get_def find_prop_def fail_record_def data_prop_def proxy_outcome_def)

lemma mkFail_run_object:
  "heap_lookup (heap (run R M cs (snd (mkFail R M m d s)))) (length (heap s))
     = Some (fail_record R M m (default_param d (empty_obj M)))"
proof -
  obtain ys where "heap (run R M cs (snd (mkFail R M m d s))) = heap (snd (mkFail R M m d s)) @ ys"
    using run_heap by blast
  then show ?thesis
    by (simp add: mkFail_eq heap_lookup_def nth_append)
qed

lemma intact_run: "intact R (heap s) \<Longrightarrow> intact R (heap (run R M cs s))"
  using run_heap [of R M cs s] by (auto simp: intact_append)

lemma intact_mkFail: "intact R (heap s) \<Longrightarrow> intact R (heap (snd (mkFail R M m d s)))"
  by (simp add: mkFail_eq intact_append)

lemma loaded_symbol: "loaded M s \<Longrightarrow> fail_sym M \<noteq> ToStringTag"
  by (auto simp: loaded_def)

lemma isFail_after_run:
  assumes "intact R (heap s)" and "fail_sym M \<noteq> ToStringTag"
  shows "isFail R M (heap (run R M cs (snd (mkFail R M m d s)))) (fst (mkFail R M m d s)) = Inr True"
  unfolding mkFail_fst
  by (rule isFail_fail_record [OF _ mkFail_run_object assms(2)])
     (rule intact_run, rule intact_mkFail [OF assms(1)])

lemma read_fail_object:
  "read_prop (heap (run R M cs (snd (mkFail R M m d s)))) (length (heap s)) (KStr ''message'')
     = Inr (VString m)
   \<and> read_prop (heap (run R M cs (snd (mkFail R M m d s)))) (length (heap s)) (KStr ''data'')
     = Inr (default_param d (empty_obj M))"
  by (rule read_fail_record [OF mkFail_run_object])

lemma isFail_other_symbol:
  assumes "intact R (heap s)" and "fail_sym M' \<noteq> fail_sym M"
    and "heap s' = heap (run R M cs (snd (mkFail R M m d s))) @ ys"
  shows "isFail R M' (heap s') (fst (mkFail R M m d s)) = Inr False"
proof -
  have i: "intact R (heap s')"
    unfolding assms(3)
    by (rule intact_append) (rule intact_run, rule intact_mkFail [OF assms(1)])
  have ob: "heap_lookup (heap s') (length (heap s))
              = Some (fail_record R M m (default_param d (empty_obj M)))"
    unfolding assms(3) by (rule heap_lookup_Some_append [OF mkFail_run_object])
  show ?thesis
    unfolding mkFail_fst by (rule isFail_fail_record_other [OF i ob assms(2)])
qed

lemma isFail_same_symbol:
  assumes "intact R (heap s)" and "fail_sym M \<noteq> ToStringTag"
    and "heap s' = heap (run R M cs (snd (mkFail R M m d s))) @ ys"
  shows "isFail R M (heap s') (fst (mkFail R M m d s)) = Inr True"
proof -
  have i: "intact R (heap s')"
    unfolding assms(3)
    by (rule intact_append) (rule intact_run, rule intact_mkFail [OF assms(1)])
  have ob: "heap_lookup (heap s') (length (heap s))
              = Some (fail_record R M m (default_param d (empty_obj M)))"
    unfolding assms(3) by (rule heap_lookup_Some_append [OF mkFail_run_object])
  show ?thesis
    unfolding mkFail_fst by (rule isFail_fail_record [OF i ob assms(2)])
qed

lemma instantiate_fresh:
  assumes "loaded M s" and "instantiate s = Inr (M', s')"
  shows "fail_sym M' \<noteq> fail_sym M"
  using assms by (auto simp: instantiate_eq loaded_def split: symbol.splits)

text \<open>The frozen empty object.\<close>

lemma find_prop_frozen_empty: "find_prop h frozen_empty k = Inr None"
  by (simp add: find_prop_def frozen_empty_def proxy_outcome_def)

lemma assign_frozen_empty:
  "heap_lookup h e = Some frozen_empty \<Longrightarrow> assign h (VRef e) k x = Inl TypeError"
  by (simp add: assign_def find_prop_frozen_empty add_property_def) (simp add: frozen_empty_def)

lemma loaded_frozen:
  assumes "loaded M s"
  shows "(\<exists>e. empty_obj M = VRef e \<and> heap_lookup (heap s) e = Some frozen_empty)
       \<and> Object_isFrozen (heap s) (empty_obj M) = Inr True
       \<and> (\<forall>k x. assign (heap s) (empty_obj M) k x = Inl TypeError)"
proof -
  from assms obtain e where e: "empty_obj M = VRef e" "heap_lookup (heap s) e = Some frozen_empty"
    by (auto simp: loaded_def split: val.splits)
  have "Object_isFrozen (heap s) (empty_obj M) = Inr True"
    by (simp add: e Object_isFrozen_def) (simp add: frozen_empty_def proxy_outcome_def)
  moreover have "assign (heap s) (empty_obj M) k x = Inl TypeError" for k x
    unfolding e(1) by (rule assign_frozen_empty [OF e(2)])
  ultimately show ?thesis using e by blast
qed

text \<open>
  What a successful assignment does: it replaces the own properties of the
  one object assigned to, and leaves every other key of that object as it was.
\<close>

lemma assign_shape:
  assumes "assign h v k x = Inr h'"
  shows "\<exists>a ob ps. v = VRef a \<and> heap_lookup h a = Some ob
           \<and> h' = h[a := ob\<lparr>props := ps\<rparr>]
           \<and> (\<forall>j. j \<noteq> k \<longrightarrow> map_of ps j = map_of (props ob) j)"
proof -
  from assms obtain a ob where v: "v = VRef a" and ob: "heap_lookup h a = Some ob"
    by (auto simp: assign_def split: val.splits option.splits)
  from assms v ob have
    "(\<exists>p. h' = h[a := ob\<lparr>props := AList.update k p (props ob)\<rparr>])
     \<or> h' = h[a := ob\<lparr>props := props ob @ [(k, data_prop x)]\<rparr>]"
    by (auto simp: assign_def add_property_def
        split: sum.splits option.splits property.splits if_splits)
  then show ?thesis
  proof
    assume "\<exists>p. h' = h[a := ob\<lparr>props := AList.update k p (props ob)\<rparr>]"
    then obtain p where "h' = h[a := ob\<lparr>props := AList.update k p (props ob)\<rparr>]" ..
    moreover have "\<forall>j. j \<noteq> k \<longrightarrow> map_of (AList.update k p (props ob)) j = map_of (props ob) j"
      by (simp add: update_conv')
    ultimately show ?thesis using v ob by blast
  next
    assume "h' = h[a := ob\<lparr>props := props ob @ [(k, data_prop x)]\<rparr>]"
    moreover have "\<forall>j. j \<noteq> k \<longrightarrow> map_of (props ob @ [(k, data_prop x)]) j = map_of (props ob) j"
      by (simp add: map_add_def split: option.splits)
    ultimately show ?thesis using v ob by blast
  qed
qed

lemma heap_lookup_update:
  "heap_lookup (h[a := ob]) b = (if b = a \<and> a < length h then Some ob else heap_lookup h b)"
  by (simp add: heap_lookup_def)

lemma assign_step_symbols: "symbols (assign_step v k x s) = symbols s"
  by (simp add: assign_step_def split: sum.splits)

lemma assign_step_length: "length (heap (assign_step v k x s)) = length (heap s)"
proof (cases "assign (heap s) v k x")
  case (Inl e)
  then show ?thesis by (simp add: assign_step_def)
next
  case (Inr h')
  from assign_shape [OF Inr] show ?thesis using Inr by (auto simp: assign_step_def)
qed

lemma assign_step_frozen_empty:
  assumes "heap_lookup (heap s) e = Some frozen_empty"
  shows "heap_lookup (heap (assign_step v k x s)) e = Some frozen_empty"
proof (cases "assign (heap s) v k x")
  case (Inl err)
  with assms show ?thesis by (simp add: assign_step_def)
next
  case (Inr h')
  from assign_shape [OF Inr] obtain a ob ps where
    v: "v = VRef a" and h': "h' = (heap s)[a := ob\<lparr>props := ps\<rparr>]" by blast
  have "a \<noteq> e"
  proof
    assume "a = e"
    with assign_frozen_empty [OF assms, of k x] Inr v show False by simp
  qed
  with assms Inr h' show ?thesis by (simp add: assign_step_def heap_lookup_update)
qed

lemma loaded_assign_step: "loaded M s \<Longrightarrow> loaded M (assign_step v k x s)"
  by (auto simp: loaded_def assign_step_symbols assign_step_frozen_empty split: symbol.splits val.splits)

lemma loaded_alloc: "loaded M s \<Longrightarrow> loaded M (snd (alloc ob s))"
  by (rule loaded_append [of M s _ "[ob]"]) (simp_all add: alloc_def)

lemma loaded_steps: "loaded M s \<Longrightarrow> loaded M (steps R M' ps s)"
proof (induction ps arbitrary: s)
  case Nil
  then show ?case by simp
next
  case (Cons p ps)
  show ?case
  proof (cases p)
    case (Calls c)
    with Cons.IH [OF loaded_run [OF Cons.prems, of R M' "[c]"]] show ?thesis by simp
  next
    case (Allocates ob)
    with Cons.IH [OF loaded_alloc [OF Cons.prems, of ob]] show ?thesis by simp
  next
    case (Assigns v k x)
    with Cons.IH [OF loaded_assign_step [OF Cons.prems, of v k x]] show ?thesis by simp
  qed
qed



section \<open>Lemmas on programs around the module\<close>

















section \<open>Concrete heaps\<close>

text \<open>Facts on the concrete heaps, for the instances below.\<close>

lemma intact_state1: "intact realm0 (heap state1)"
  by (simp add: intact_def untagged_def tagged_def no_symbol_keys_def own_property_def
      heap_lookup_def realm0_def state1_def state0_def tag_prop_def is_proxy_def)

lemma loaded_state1: "loaded module0 state1"
  by (simp add: loaded_def module0_def state1_def state0_def heap_lookup_def)

lemma intact_with_object: "intact realm0 (heap (with_object ob))"
  using intact_append [OF intact_state1, of "[ob]"] by (simp add: with_object_def alloc_def)

lemma loaded_with_object: "loaded module0 (with_object ob)"
  by (rule loaded_append [OF loaded_state1, of _ "[ob]"]) (simp_all add: with_object_def alloc_def)

lemma lookup_with_object: "heap_lookup (heap (with_object ob)) 8 = Some ob"
  by (simp add: with_object_def alloc_def heap_lookup_def state1_def state0_def)


lemma loaded_with_objects: "loaded module0 (with_objects obs)"
  by (rule loaded_append [OF loaded_state1, of _ obs]) (simp_all add: with_objects_def)



lemma instantiate_state0: "instantiate state0 = Inr (module0, state1)"
  by (simp add: instantiate_eq module0_def state1_def) (simp add: state0_def)

lemma instantiate_state1: "instantiate state1 = Inr (module1, state2)"
  by (simp add: instantiate_eq module1_def state2_def) (simp add: state1_def state0_def)

lemma intact_state2: "intact realm0 (heap state2)"
  using intact_append [OF intact_state1, of "[frozen_empty]"] by (simp add: state2_def)


lemma plain_literal: "plain_object realm0 (literal ps)"
proof -
  have "no_getter (map_of (map (\<lambda>kv. (fst kv, data_prop (snd kv))) ps) k)" for k
  proof (cases "map_of (map (\<lambda>kv. (fst kv, data_prop (snd kv))) ps) k")
    case None
    then show ?thesis by (simp add: no_getter_def)
  next
    case (Some q)
    then have "(k, q) \<in> set (map (\<lambda>kv. (fst kv, data_prop (snd kv))) ps)"
      by (rule map_of_SomeD)
    then obtain v where "q = data_prop v" by auto
    with Some show ?thesis by (simp add: no_getter_def data_prop_def)
  qed
  then show ?thesis by (simp add: plain_object_def literal_def own_property_def)
qed


lemma instantiate_state3: "instantiate state3 = Inr (module3, state4)"
  by (simp add: instantiate_eq module3_def state4_def)
     (simp add: state3_def mkFail_eq state1_def state0_def)

text \<open>The program of \<open>first_steps\<close> and \<open>later_steps\<close>.\<close>

lemma heap_first_steps:
  "heap (steps realm0 module0 first_steps state1)
     = heap state0 @ [frozen_empty, literal [(KStr ''code'', forty_two)]]"
  by (simp add: first_steps_def alloc_def state1_def)





section \<open>The claims\<close>

subsection \<open>Construction then recognition\<close>

text \<open>
  Claim C1. For every string message \<open>m\<close> and every data argument \<open>d\<close>
  (present or left out), \<open>isFail\<close> applied to the value \<open>mkFail\<close> returns
  gives \<^verbatim>\<open>true\<close>. The realm's intrinsic prototypes are as the language
  defines them and the module has been loaded.
\<close>

theorem isFail_mkFail:
  assumes "intact R (heap s)" and "loaded M s"
  shows "isFail R M (heap (snd (mkFail R M m d s))) (fst (mkFail R M m d s)) = Inr True"
  using isFail_after_run [OF assms(1) loaded_symbol [OF assms(2)], of "[]" m d] by simp

text \<open>
  The instance \<^verbatim>\<open>mkFail('division by zero', {code: 42})\<close>, the data object
  at address 8.
\<close>

theorem isFail_mkFail_witness:
  "intact realm0 (heap (with_object (literal [(KStr ''code'', forty_two)])))
   \<and> loaded module0 (with_object (literal [(KStr ''code'', forty_two)]))
   \<and> isFail realm0 module0
       (heap (snd (mkFail realm0 module0 ''division by zero'' (Some (VRef 8))
                     (with_object (literal [(KStr ''code'', forty_two)])))))
       (fst (mkFail realm0 module0 ''division by zero'' (Some (VRef 8))
               (with_object (literal [(KStr ''code'', forty_two)])))) = Inr True"
  using isFail_mkFail [OF intact_with_object loaded_with_object] intact_with_object loaded_with_object
  by blast

subsection \<open>No false positives\<close>

text \<open>
  Claim C2. For every plain record \<open>r\<close> that does not carry the discriminant
  as a key, whatever other properties it has (\<^verbatim>\<open>message\<close> and \<^verbatim>\<open>data\<close>
  among them), \<open>isFail\<close> returns \<^verbatim>\<open>false\<close>.
\<close>

theorem isFail_plain_record:
  assumes "intact R h" and "heap_lookup h a = Some r" and "plain_object R r"
    and "own_property r (KSym (fail_sym M)) = None"
  shows "isFail R M h (VRef a) = Inr False"
proof -
  from assms(3) have k: "kind r = Ordinary"
    and p: "proto r = None \<or> proto r = Some (ObjectPrototype R)"
    by (simp_all add: plain_object_def)
  have n: "no_getter (own_property r (KSym ToStringTag))"
    by (rule plain_object_no_getter [OF assms(3)])
  show ?thesis
    unfolding isFail_plain [OF assms(1,2) k p n]
    using assms(4) by (simp add: own_property_def)
qed

text \<open>The instance \<^verbatim>\<open>isFail({message: 'x', data: null})\<close>.\<close>

theorem isFail_plain_record_witness:
  "intact realm0 (heap (with_object (literal [(KStr ''message'', VString ''x''), (KStr ''data'', VNull)])))
   \<and> heap_lookup (heap (with_object (literal [(KStr ''message'', VString ''x''), (KStr ''data'', VNull)]))) 8
       = Some (literal [(KStr ''message'', VString ''x''), (KStr ''data'', VNull)])
   \<and> plain_object realm0 (literal [(KStr ''message'', VString ''x''), (KStr ''data'', VNull)])
   \<and> own_property (literal [(KStr ''message'', VString ''x''), (KStr ''data'', VNull)])
        (KSym (fail_sym module0)) = None
   \<and> isFail realm0 module0
        (heap (with_object (literal [(KStr ''message'', VString ''x''), (KStr ''data'', VNull)])))
        (VRef 8) = Inr False"
proof -
  let ?r = "literal [(KStr ''message'', VString ''x''), (KStr ''data'', VNull)]"
  have p: "plain_object realm0 ?r" by (rule plain_literal)
  have n: "own_property ?r (KSym (fail_sym module0)) = None"
    by (simp add: own_property_def literal_def)
  from isFail_plain_record [OF intact_with_object lookup_with_object p n]
  show ?thesis using intact_with_object lookup_with_object p n by blast
qed

subsection \<open>The constructor keeps its arguments\<close>

text \<open>
  Claim C3. For every string \<open>m\<close> and every data value \<open>d\<close> passed to
  \<open>mkFail\<close>, the result is a reference to the object the call allocates;
  reading its \<^verbatim>\<open>message\<close> gives \<open>m\<close> and reading its \<^verbatim>\<open>data\<close> gives
  \<open>d\<close> itself: for an object, the same reference. A data value is an
  argument other than \<^verbatim>\<open>undefined\<close>, which stands for a missing argument
  (claim C10).
\<close>

theorem mkFail_fields:
  assumes "d \<noteq> VUndefined"
  shows "fst (mkFail R M m (Some d) s) = VRef (length (heap s))
       \<and> read_prop (heap (snd (mkFail R M m (Some d) s))) (length (heap s))
           (KStr ''message'') = Inr (VString m)
       \<and> read_prop (heap (snd (mkFail R M m (Some d) s))) (length (heap s))
           (KStr ''data'') = Inr d"
  using assms
  by (cases d)
     (simp_all add: mkFail_eq fail_record_def read_prop_def heap_lookup_def Get_def find_prop_def
        data_prop_def default_param_def proxy_outcome_def)

text \<open>The instance \<^verbatim>\<open>mkFail('division by zero', {code: 42})\<close>.\<close>

theorem mkFail_fields_witness:
  "VRef 8 \<noteq> VUndefined
   \<and> fst (mkFail realm0 module0 ''division by zero'' (Some (VRef 8))
            (with_object (literal [(KStr ''code'', forty_two)])))
       = VRef (length (heap (with_object (literal [(KStr ''code'', forty_two)]))))
   \<and> read_prop (heap (snd (mkFail realm0 module0 ''division by zero'' (Some (VRef 8))
                            (with_object (literal [(KStr ''code'', forty_two)])))))
        (length (heap (with_object (literal [(KStr ''code'', forty_two)]))))
        (KStr ''message'') = Inr (VString ''division by zero'')
   \<and> read_prop (heap (snd (mkFail realm0 module0 ''division by zero'' (Some (VRef 8))
                            (with_object (literal [(KStr ''code'', forty_two)])))))
        (length (heap (with_object (literal [(KStr ''code'', forty_two)]))))
        (KStr ''data'') = Inr (VRef 8)"
  using mkFail_fields [of "VRef 8" realm0 module0 "''division by zero''"
      "with_object (literal [(KStr ''code'', forty_two)])"]
  by simp

subsection \<open>The shared default data\<close>

text \<open>
  Claim C5. Loading the module allocates one object, \<^verbatim>\<open>empty\<close>: it has no
  properties and a \<^verbatim>\<open>null\<close> prototype, and it is frozen. From then on,
  whatever the program does (calls of the module, allocations, assignments to
  any object, \<^verbatim>\<open>empty\<close> among them), a call of \<open>mkFail\<close> with a
  message only gives a \<^verbatim>\<open>data\<close> that is \<^verbatim>\<open>empty\<close>: the same reference
  in every such call, an object that still has no properties, tests as frozen
  and on which every assignment throws. The call allocates one object, the
  failure value itself, and no container for the data.
\<close>

theorem mkFail_default_data:
  assumes "instantiate s0 = Inr (M, s1)"
  shows "empty_obj M = VRef (length (heap s0))
       \<and> heap s1 = heap s0 @ [frozen_empty]
       \<and> fst (mkFail R M m None (steps R M ps s1)) = VRef (length (heap (steps R M ps s1)))
       \<and> read_prop (heap (snd (mkFail R M m None (steps R M ps s1))))
           (length (heap (steps R M ps s1))) (KStr ''data'')
           = Inr (empty_obj M)
       \<and> fst (mkFail R M m' None (steps R M qs (snd (mkFail R M m None (steps R M ps s1)))))
           = VRef (length (heap (steps R M qs (snd (mkFail R M m None (steps R M ps s1))))))
       \<and> read_prop
           (heap (snd (mkFail R M m' None (steps R M qs (snd (mkFail R M m None (steps R M ps s1)))))))
           (length (heap (steps R M qs (snd (mkFail R M m None (steps R M ps s1))))))
           (KStr ''data'')
           = Inr (empty_obj M)
       \<and> heap_lookup (heap (snd (mkFail R M m None (steps R M ps s1)))) (length (heap s0))
           = Some frozen_empty
       \<and> Object_isFrozen (heap (snd (mkFail R M m None (steps R M ps s1)))) (empty_obj M)
           = Inr True
       \<and> (\<forall>k x. assign (heap (snd (mkFail R M m None (steps R M ps s1)))) (empty_obj M) k x
                  = Inl TypeError)
       \<and> length (heap (snd (mkFail R M m None (steps R M ps s1))))
           = Suc (length (heap (steps R M ps s1)))"
proof -
  let ?s = "steps R M ps s1"
  let ?t = "steps R M qs (snd (mkFail R M m None ?s))"
  from assms have e: "empty_obj M = VRef (length (heap s0))"
    and h: "heap s1 = heap s0 @ [frozen_empty]"
    by (auto simp: instantiate_eq)
  have l: "loaded M (snd (mkFail R M m None ?s))"
    by (rule loaded_mkFail [OF loaded_steps [OF loaded_instantiate [OF assms]]])
  have 1: "read_prop (heap (snd (mkFail R M m None ?s))) (length (heap ?s)) (KStr ''data'')
             = Inr (empty_obj M)"
    using read_fail_object [of R M "[]" m None ?s] by (simp add: default_param_def)
  have 2: "read_prop (heap (snd (mkFail R M m' None ?t))) (length (heap ?t)) (KStr ''data'')
             = Inr (empty_obj M)"
    using read_fail_object [of R M "[]" m' None ?t] by (simp add: default_param_def)
  have 3: "length (heap (snd (mkFail R M m None ?s))) = Suc (length (heap ?s))"
    by (simp add: mkFail_eq)
  from loaded_frozen [OF l] have
    4: "heap_lookup (heap (snd (mkFail R M m None ?s))) (length (heap s0)) = Some frozen_empty"
    and 5: "Object_isFrozen (heap (snd (mkFail R M m None ?s))) (empty_obj M) = Inr True"
    and 6: "\<forall>k x. assign (heap (snd (mkFail R M m None ?s))) (empty_obj M) k x = Inl TypeError"
    by (simp_all add: e)
  from e h 1 2 3 4 5 6 show ?thesis unfolding mkFail_fst by blast
qed

text \<open>
  The instance: the module loaded in \<open>state0\<close>, where \<^verbatim>\<open>empty\<close> is put at
  address 7; the assignment \<^verbatim>\<open>empty.code = 42\<close>, which throws; then
  \<^verbatim>\<open>mkFail('not found')\<close>, \<^verbatim>\<open>isFail\<close> of its value, and
  \<^verbatim>\<open>mkFail('again')\<close>.
\<close>

theorem mkFail_default_data_witness:
  "instantiate state0 = Inr (module0, state1)
   \<and> empty_obj module0 = VRef (length (heap state0))
   \<and> heap state1 = heap state0 @ [frozen_empty]
   \<and> read_prop
       (heap (snd (mkFail realm0 module0 ''not found'' None
          (steps realm0 module0 [Assigns (VRef 7) (KStr ''code'') forty_two] state1))))
       (length (heap (steps realm0 module0 [Assigns (VRef 7) (KStr ''code'') forty_two] state1)))
       (KStr ''data'')
       = Inr (empty_obj module0)
   \<and> read_prop
       (heap (snd (mkFail realm0 module0 ''again'' None
          (steps realm0 module0 [Calls (IsFail (VRef 8))]
             (snd (mkFail realm0 module0 ''not found'' None
                (steps realm0 module0 [Assigns (VRef 7) (KStr ''code'') forty_two] state1)))))))
       (length (heap (steps realm0 module0 [Calls (IsFail (VRef 8))]
             (snd (mkFail realm0 module0 ''not found'' None
                (steps realm0 module0 [Assigns (VRef 7) (KStr ''code'') forty_two] state1))))))
       (KStr ''data'')
       = Inr (empty_obj module0)
   \<and> heap_lookup
       (heap (snd (mkFail realm0 module0 ''not found'' None
          (steps realm0 module0 [Assigns (VRef 7) (KStr ''code'') forty_two] state1))))
       (length (heap state0))
       = Some frozen_empty
   \<and> Object_isFrozen
       (heap (snd (mkFail realm0 module0 ''not found'' None
          (steps realm0 module0 [Assigns (VRef 7) (KStr ''code'') forty_two] state1))))
       (empty_obj module0)
       = Inr True
   \<and> assign
       (heap (snd (mkFail realm0 module0 ''not found'' None
          (steps realm0 module0 [Assigns (VRef 7) (KStr ''code'') forty_two] state1))))
       (empty_obj module0) (KStr ''code'') forty_two
       = Inl TypeError
   \<and> length
       (heap (snd (mkFail realm0 module0 ''not found'' None
          (steps realm0 module0 [Assigns (VRef 7) (KStr ''code'') forty_two] state1))))
       = Suc (length (heap (steps realm0 module0 [Assigns (VRef 7) (KStr ''code'') forty_two] state1)))"
  using mkFail_default_data [OF instantiate_state0, of realm0 "''not found''"
      "[Assigns (VRef 7) (KStr ''code'') forty_two]" "''again''" "[Calls (IsFail (VRef 8))]"]
    instantiate_state0
  by blast

subsection \<open>An explicit undefined\<close>

text \<open>
  Claim C10. \<^verbatim>\<open>mkFail(m, undefined)\<close> does what \<^verbatim>\<open>mkFail(m)\<close> does: the
  same value and the same heap, with the \<^verbatim>\<open>data\<close> of the object it
  returns the module's frozen \<^verbatim>\<open>empty\<close>.
\<close>

theorem mkFail_undefined_data:
  assumes "loaded M s"
  shows "mkFail R M m (Some VUndefined) s = mkFail R M m None s
       \<and> fst (mkFail R M m (Some VUndefined) s) = VRef (length (heap s))
       \<and> read_prop (heap (snd (mkFail R M m (Some VUndefined) s)))
           (length (heap s)) (KStr ''data'') = Inr (empty_obj M)
       \<and> Object_isFrozen (heap (snd (mkFail R M m (Some VUndefined) s))) (empty_obj M) = Inr True
       \<and> (\<exists>e. empty_obj M = VRef e
              \<and> heap_lookup (heap (snd (mkFail R M m (Some VUndefined) s))) e = Some frozen_empty)"
proof -
  have 1: "mkFail R M m (Some VUndefined) s = mkFail R M m None s"
    by (simp add: mkFail_def default_param_def)
  have 2: "read_prop (heap (snd (mkFail R M m (Some VUndefined) s)))
             (length (heap s)) (KStr ''data'') = Inr (empty_obj M)"
    using read_fail_object [of R M "[]" m "Some VUndefined" s] by (simp add: default_param_def)
  from loaded_frozen [OF loaded_mkFail [OF assms, of R M m "Some VUndefined"]] 1 2
  show ?thesis unfolding mkFail_fst by blast
qed

text \<open>The instance \<^verbatim>\<open>mkFail('not found', undefined)\<close>.\<close>

theorem mkFail_undefined_data_witness:
  "loaded module0 state1
   \<and> mkFail realm0 module0 ''not found'' (Some VUndefined) state1
       = mkFail realm0 module0 ''not found'' None state1
   \<and> fst (mkFail realm0 module0 ''not found'' (Some VUndefined) state1)
       = VRef (length (heap state1))
   \<and> read_prop (heap (snd (mkFail realm0 module0 ''not found'' (Some VUndefined) state1)))
       (length (heap state1)) (KStr ''data'')
       = Inr (VRef 7)
   \<and> Object_isFrozen (heap (snd (mkFail realm0 module0 ''not found'' (Some VUndefined) state1)))
       (VRef 7) = Inr True
   \<and> heap_lookup (heap (snd (mkFail realm0 module0 ''not found'' (Some VUndefined) state1))) 7
       = Some frozen_empty"
proof -
  have e: "empty_obj module0 = VRef 7" by (simp add: module0_def)
  from mkFail_undefined_data [OF loaded_state1, of realm0 "''not found''"] loaded_state1
  show ?thesis unfolding e by blast
qed

subsection \<open>Presence of the key, not its value\<close>

text \<open>
  Claim C9. For a plain object that has the discriminant as an own key,
  \<open>isFail\<close> returns \<^verbatim>\<open>true\<close> whatever property \<open>p\<close> is stored under the
  key: the value of \<open>p\<close> is not looked at. The plain object is one that
  \<open>isObject\<close> accepts: no own \<^verbatim>\<open>Symbol.toStringTag\<close> gives it a tag other
  than \<^verbatim>\<open>Object\<close>.
\<close>

theorem isFail_presence_only:
  assumes "intact R h" and "heap_lookup h a = Some v" and "plain_object R v"
    and "tag_is_Object v" and "own_property v (KSym (fail_sym M)) = Some p"
  shows "isFail R M h (VRef a) = Inr True"
proof -
  from assms(3) have k: "kind v = Ordinary"
    and c: "proto v = None \<or> proto v = Some (ObjectPrototype R)"
    by (simp_all add: plain_object_def)
  have n: "no_getter (own_property v (KSym ToStringTag))"
    by (rule plain_object_no_getter [OF assms(3)])
  show ?thesis
    unfolding isFail_plain [OF assms(1,2) k c n]
    using assms(4,5) by (simp add: own_property_def)
qed

text \<open>The instance \<^verbatim>\<open>isFail({[__fail__]: false})\<close>.\<close>

theorem isFail_presence_only_witness:
  "intact realm0 (heap (with_object (literal [(KSym (fail_sym module0), VBool False)])))
   \<and> heap_lookup (heap (with_object (literal [(KSym (fail_sym module0), VBool False)]))) 8
       = Some (literal [(KSym (fail_sym module0), VBool False)])
   \<and> plain_object realm0 (literal [(KSym (fail_sym module0), VBool False)])
   \<and> tag_is_Object (literal [(KSym (fail_sym module0), VBool False)])
   \<and> own_property (literal [(KSym (fail_sym module0), VBool False)]) (KSym (fail_sym module0))
       = Some (data_prop (VBool False))
   \<and> isFail realm0 module0 (heap (with_object (literal [(KSym (fail_sym module0), VBool False)])))
       (VRef 8) = Inr True"
proof -
  let ?v = "literal [(KSym (fail_sym module0), VBool False)]"
  have p: "plain_object realm0 ?v" by (rule plain_literal)
  have t: "tag_is_Object ?v"
    by (simp add: tag_is_Object_def own_property_def literal_def module0_def)
  have o: "own_property ?v (KSym (fail_sym module0)) = Some (data_prop (VBool False))"
    by (simp add: own_property_def literal_def)
  from isFail_presence_only [OF intact_with_object lookup_with_object p t o]
  show ?thesis using intact_with_object lookup_with_object p t o by blast
qed

subsection \<open>Recognition on values of every shape\<close>




subsection \<open>The scope of the discriminant\<close>

text \<open>
  Claim C6 says that \<open>isFail\<close> recognises a value of \<open>mkFail\<close> made in
  another call, another instantiation of the module or another execution
  context. \<^verbatim>\<open>Symbol('fail')\<close> is evaluated each time the module is loaded and
  returns a new symbol each time, so the \<open>isFail\<close> of the first instantiation
  returns \<^verbatim>\<open>false\<close> on a value made by the \<open>mkFail\<close> of the second.
\<close>

theorem isFail_other_instance:
  "instantiate state0 = Inr (module0, state1)
   \<and> instantiate state1 = Inr (module1, state2)
   \<and> isFail realm0 module0 (heap (snd (mkFail realm0 module1 ''not found'' None state2)))
        (fst (mkFail realm0 module1 ''not found'' None state2)) = Inr False"
proof -
  have "fail_sym module0 \<noteq> fail_sym module1" by (simp add: module0_def module1_def)
  from isFail_other_symbol [OF intact_state2 this,
      where s' = "snd (mkFail realm0 module1 ''not found'' None state2)" and cs = "[]" and ys = "[]"]
  show ?thesis using instantiate_state0 instantiate_state1 by simp
qed

text \<open>
  Claim C6, amended. \<open>isFail\<close> returns \<^verbatim>\<open>true\<close> on a value made by the
  \<open>mkFail\<close> of the same instantiation of the module, in that call or after
  any later calls of the module, and also after the module is loaded again.
  The discriminant belongs to the instantiation: a later instantiation has
  another symbol, and its \<open>isFail\<close> returns \<^verbatim>\<open>false\<close> on that value.
\<close>

theorem isFail_same_instance:
  assumes "intact R (heap s)" and "loaded M s"
  shows "isFail R M (heap (run R M cs (snd (mkFail R M m d s)))) (fst (mkFail R M m d s)) = Inr True
       \<and> (\<forall>M' s'. instantiate (run R M cs (snd (mkFail R M m d s))) = Inr (M', s') \<longrightarrow>
             fail_sym M' \<noteq> fail_sym M
             \<and> isFail R M' (heap s') (fst (mkFail R M m d s)) = Inr False
             \<and> isFail R M (heap s') (fst (mkFail R M m d s)) = Inr True)"
proof (intro conjI allI impI)
  show "isFail R M (heap (run R M cs (snd (mkFail R M m d s)))) (fst (mkFail R M m d s)) = Inr True"
    by (rule isFail_after_run [OF assms(1) loaded_symbol [OF assms(2)]])
next
  fix M' s'
  assume a: "instantiate (run R M cs (snd (mkFail R M m d s))) = Inr (M', s')"
  have l: "loaded M (run R M cs (snd (mkFail R M m d s)))"
    by (rule loaded_run) (rule loaded_mkFail [OF assms(2)])
  from a have h: "heap s' = heap (run R M cs (snd (mkFail R M m d s))) @ [frozen_empty]"
    by (auto simp: instantiate_eq)
  show n: "fail_sym M' \<noteq> fail_sym M" by (rule instantiate_fresh [OF l a])
  show "isFail R M' (heap s') (fst (mkFail R M m d s)) = Inr False"
    by (rule isFail_other_symbol [OF assms(1) n h])
  show "isFail R M (heap s') (fst (mkFail R M m d s)) = Inr True"
    by (rule isFail_same_symbol [OF assms(1) loaded_symbol [OF assms(2)] h])
qed

text \<open>
  The instance \<^verbatim>\<open>mkFail('not found')\<close>, followed by \<^verbatim>\<open>mkFail('again')\<close> and
  \<^verbatim>\<open>isFail(null)\<close>.
\<close>

theorem isFail_same_instance_witness:
  "intact realm0 (heap state1) \<and> loaded module0 state1
   \<and> isFail realm0 module0 (heap state3)
        (fst (mkFail realm0 module0 ''not found'' None state1)) = Inr True
   \<and> instantiate state3 = Inr (module3, state4)
   \<and> fail_sym module3 \<noteq> fail_sym module0
   \<and> isFail realm0 module3 (heap state4)
        (fst (mkFail realm0 module0 ''not found'' None state1)) = Inr False
   \<and> isFail realm0 module0 (heap state4)
        (fst (mkFail realm0 module0 ''not found'' None state1)) = Inr True"
  using isFail_same_instance [OF intact_state1 loaded_state1,
      of "[MkFail ''again'' None, IsFail VNull]" "''not found''" None]
    intact_state1 loaded_state1 instantiate_state3
  unfolding state3_def [symmetric]
  by blast

subsection \<open>Immutability\<close>

text \<open>
  Claim C7 says that the \<^verbatim>\<open>message\<close> and \<^verbatim>\<open>data\<close> of a failure value never
  change, whoever holds it. The object literal of \<open>mkFail\<close> makes an
  extensible object with writable properties and nothing freezes it: after
  \<^verbatim>\<open>f = mkFail('not found')\<close> the assignment \<^verbatim>\<open>f.message = 'changed'\<close>
  succeeds and \<^verbatim>\<open>f.message\<close> then reads \<^verbatim>\<open>'changed'\<close>.
\<close>

theorem mkFail_not_frozen:
  "fst (mkFail realm0 module0 ''not found'' None state1) = VRef (length (heap state1))
   \<and> read_prop (heap (snd (mkFail realm0 module0 ''not found'' None state1)))
      (length (heap state1)) (KStr ''message'')
     = Inr (VString ''not found'')
   \<and> assign_then_read (heap (snd (mkFail realm0 module0 ''not found'' None state1)))
      (length (heap state1)) (KStr ''message'') (VString ''changed'')
     = Inr (VString ''changed'')
   \<and> Object_isFrozen (heap (snd (mkFail realm0 module0 ''not found'' None state1)))
      (fst (mkFail realm0 module0 ''not found'' None state1)) = Inr False"
  by (simp add: mkFail_eq fail_record_def assign_then_read_def assign_def read_prop_def Get_def
      find_prop_def heap_lookup_def data_prop_def Object_isFrozen_def proxy_outcome_def)

text \<open>
  Claim C7, amended. No operation of the module changes the \<^verbatim>\<open>message\<close> or
  \<^verbatim>\<open>data\<close> of a failure value: on the object \<open>mkFail\<close> returned, after
  any run of later calls of \<open>mkFail\<close> and \<open>isFail\<close>, both read as they were
  constructed.
\<close>

theorem mkFail_fields_stable:
  "fst (mkFail R M m d s) = VRef (length (heap s))
   \<and> read_prop (heap (run R M cs (snd (mkFail R M m d s)))) (length (heap s)) (KStr ''message'')
     = Inr (VString m)
   \<and> read_prop (heap (run R M cs (snd (mkFail R M m d s)))) (length (heap s)) (KStr ''data'')
     = Inr (default_param d (empty_obj M))"
  using read_fail_object [of R M cs m d s] by (simp add: mkFail_fst)

subsection \<open>What a positive answer guarantees\<close>




end
